theory Spec2Isabelle
  imports Main "HOL-Library.Word"
begin

section \<open>The metric toolkit: \<^verbatim>\<open>torcheval/metrics/toolkit.py\<close>\<close>

text \<open>
  The toolkit synchronises metric objects over a process group.  Python passes
  objects by reference and the toolkit mutates them in place, so the model keeps
  an explicit store: a heap of objects addressed by their index.  A value is a
  reference into the heap, \<^verbatim>\<open>None\<close>, or a list of values.

  The objects that travel through \<^verbatim>\<open>_sync_metric_object\<close> are those of its
  declared argument type \<^verbatim>\<open>Union[Metric, MutableMapping[str, Metric]]\<close>: a metric
  (its state is a value of the type parameter \<open>'s\<close>) or a dictionary from names
  to references.  An object that crosses ranks is serialised by
  \<^verbatim>\<open>dist.all_gather_object\<close>; \<open>pickled\<close> is its serialised form (a dictionary
  with the states of its metrics; two names for one metric become two metrics).

  A function that raises ends with \<open>Inl\<close> of the exception; one that returns ends
  with \<open>Inr\<close> of its result and the world it leaves.  The world a raising call
  leaves behind is not kept.  Functions carry the names of the source, without the
  leading underscore of the private ones.
\<close>

type_synonym addr = nat

datatype 's obj = MetricObj 's | DictObj "(string \<times> addr) list"

datatype 's pickled = PMetric 's | PDict "(string \<times> 's) list"

datatype val = Ref addr | NoneV | ListV "val list"

text \<open>
  The exceptions the toolkit can end with.  The two \<^verbatim>\<open>RuntimeError\<close>s of
  \<^verbatim>\<open>_validate_rank_and_world_size\<close> are told apart by their message: "The current
  process is not part of the process group" and "Unexpected world_size \<open>n\<close> is seen
  when syncing metrics!".
\<close>

datatype error =
    RuntimeError_not_in_group
  | RuntimeError_unexpected_world_size int
  | AttributeError
  | KeyError string
  | TypeError
  | IndexError
  | PicklingError

datatype log_level = WARNING

text \<open>
  What one process sees: its heap, the records written to the module logger, and
  how many collective calls it has issued.
\<close>

record 's world =
  heap :: "'s obj list"
  log_records :: "(log_level \<times> string) list"
  collective_calls :: nat

text \<open>
  The process group the call resolves to (the one given, or
  \<^verbatim>\<open>dist.group.WORLD\<close> for \<^verbatim>\<open>None\<close>): the world size that
  \<^verbatim>\<open>PGWrapper(process_group).get_world_size()\<close> reports, the rank of this process,
  and what every other rank hands to the one \<^verbatim>\<open>all_gather_object\<close> of the call.
\<close>

record 's process_group =
  pg_world_size :: int
  pg_rank :: nat
  pg_peers :: "nat \<Rightarrow> 's pickled"

text \<open>
  The \<^verbatim>\<open>Metric\<close> class is not part of the toolkit; the methods the toolkit calls
  are parameters of the model: \<^verbatim>\<open>_prepare_for_merge_state()\<close>, the property
  \<^verbatim>\<open>device\<close>, \<^verbatim>\<open>to(device)\<close> and \<^verbatim>\<open>merge_state(metrics)\<close>, each as its effect on
  the state of the metric it is called on.
\<close>

record ('s, 'd) metric_ops =
  op_prepare_for_merge_state :: "'s \<Rightarrow> 's"
  op_device :: "'s \<Rightarrow> 'd"
  op_to :: "'s \<Rightarrow> 'd \<Rightarrow> 's"
  op_merge_state :: "'s \<Rightarrow> 's list \<Rightarrow> 's"

text \<open>Sequencing of calls that may raise: the first exception ends the run.\<close>

definition then_do :: "'e + 'a \<Rightarrow> ('a \<Rightarrow> 'e + 'b) \<Rightarrow> 'e + 'b" where
  "then_do r f = (case r of Inl e \<Rightarrow> Inl e | Inr x \<Rightarrow> f x)"

subsection \<open>The store\<close>

definition lookup :: "'s obj list \<Rightarrow> addr \<Rightarrow> 's obj option" where
  "lookup h a = (if a < length h then Some (h ! a) else None)"

definition alloc :: "'s obj \<Rightarrow> 's world \<Rightarrow> addr \<times> 's world" where
  "alloc ob w = (length (heap w), w\<lparr>heap := heap w @ [ob]\<rparr>)"

definition store :: "addr \<Rightarrow> 's obj \<Rightarrow> 's world \<Rightarrow> 's world" where
  "store a ob w = w\<lparr>heap := (heap w)[a := ob]\<rparr>"

definition log_warning :: "string \<Rightarrow> 's world \<Rightarrow> 's world" where
  "log_warning msg w = w\<lparr>log_records := log_records w @ [(WARNING, msg)]\<rparr>"

subsection \<open>Method calls on a metric\<close>

text \<open>
  A method of \<^verbatim>\<open>Metric\<close> called on a reference: on a metric it updates the state in
  place; on a dictionary the attribute does not exist.  \<^verbatim>\<open>to\<close> and
  \<^verbatim>\<open>merge_state\<close> return \<^verbatim>\<open>self\<close>, so the caller goes on with the same reference.
\<close>

definition call_prepare_for_merge_state ::
  "('s, 'd) metric_ops \<Rightarrow> addr \<Rightarrow> 's world \<Rightarrow> error + 's world" where
  "call_prepare_for_merge_state ops m w =
     (case lookup (heap w) m of
        Some (MetricObj s) \<Rightarrow> Inr (store m (MetricObj (op_prepare_for_merge_state ops s)) w)
      | _ \<Rightarrow> Inl AttributeError)"

definition get_device :: "('s, 'd) metric_ops \<Rightarrow> addr \<Rightarrow> 's world \<Rightarrow> error + 'd" where
  "get_device ops m w =
     (case lookup (heap w) m of
        Some (MetricObj s) \<Rightarrow> Inr (op_device ops s)
      | _ \<Rightarrow> Inl AttributeError)"

definition call_to :: "('s, 'd) metric_ops \<Rightarrow> addr \<Rightarrow> 'd \<Rightarrow> 's world \<Rightarrow> error + 's world" where
  "call_to ops m dev w =
     (case lookup (heap w) m of
        Some (MetricObj s) \<Rightarrow> Inr (store m (MetricObj (op_to ops s dev)) w)
      | _ \<Rightarrow> Inl AttributeError)"

fun states_of :: "'s obj list \<Rightarrow> addr list \<Rightarrow> 's list option" where
  "states_of h [] = Some []"
| "states_of h (a # as) =
     (case lookup h a of
        Some (MetricObj s) \<Rightarrow> map_option ((#) s) (states_of h as)
      | _ \<Rightarrow> None)"

definition call_merge_state ::
  "('s, 'd) metric_ops \<Rightarrow> addr \<Rightarrow> addr list \<Rightarrow> 's world \<Rightarrow> error + 's world" where
  "call_merge_state ops m metrics w =
     (case lookup (heap w) m of
        Some (MetricObj s) \<Rightarrow>
          (case states_of (heap w) metrics of
             Some ss \<Rightarrow> Inr (store m (MetricObj (op_merge_state ops s ss)) w)
           | None \<Rightarrow> Inl AttributeError)
      | _ \<Rightarrow> Inl AttributeError)"

subsection \<open>Serialising, copying and gathering objects\<close>

fun pickle_items :: "'s obj list \<Rightarrow> (string \<times> addr) list \<Rightarrow> (string \<times> 's) list option" where
  "pickle_items h [] = Some []"
| "pickle_items h ((k, a) # kvs) =
     (case lookup h a of
        Some (MetricObj s) \<Rightarrow> map_option ((#) (k, s)) (pickle_items h kvs)
      | _ \<Rightarrow> None)"

definition pickle :: "'s obj list \<Rightarrow> addr \<Rightarrow> 's pickled option" where
  "pickle h a =
     (case lookup h a of
        Some (MetricObj s) \<Rightarrow> Some (PMetric s)
      | Some (DictObj kvs) \<Rightarrow> map_option PDict (pickle_items h kvs)
      | None \<Rightarrow> None)"

fun unpickle_items :: "(string \<times> 's) list \<Rightarrow> 's world \<Rightarrow> (string \<times> addr) list \<times> 's world" where
  "unpickle_items [] w = ([], w)"
| "unpickle_items ((k, s) # items) w =
     (let (a, w1) = alloc (MetricObj s) w;
          (kvs, w2) = unpickle_items items w1
      in ((k, a) # kvs, w2))"

definition unpickle :: "'s pickled \<Rightarrow> 's world \<Rightarrow> addr \<times> 's world" where
  "unpickle p w =
     (case p of
        PMetric s \<Rightarrow> alloc (MetricObj s) w
      | PDict items \<Rightarrow> (let (kvs, w1) = unpickle_items items w in alloc (DictObj kvs) w1))"

fun unpickle_all :: "'s pickled list \<Rightarrow> 's world \<Rightarrow> addr list \<times> 's world" where
  "unpickle_all [] w = ([], w)"
| "unpickle_all (p # ps) w =
     (let (a, w1) = unpickle p w;
          (as, w2) = unpickle_all ps w1
      in (a # as, w2))"

text \<open>
  \<^verbatim>\<open>clone_metric(metric)\<close> is \<^verbatim>\<open>deepcopy(metric)\<close>: a new object with a copy of
  everything the old one reaches.
\<close>

definition clone_metric :: "addr \<Rightarrow> 's world \<Rightarrow> error + (addr \<times> 's world)" where
  "clone_metric metric w =
     (case pickle (heap w) metric of
        None \<Rightarrow> Inl PicklingError
      | Some p \<Rightarrow> Inr (unpickle p w))"

text \<open>
  \<^verbatim>\<open>dist.all_gather_object(object_list, obj, group)\<close>: one collective call.  Slot
  \<open>i\<close> of \<^verbatim>\<open>object_list\<close> is filled with a deserialised copy of what rank \<open>i\<close>
  passed, this rank's own object included.
\<close>

definition all_gather_object ::
  "val list \<Rightarrow> addr \<Rightarrow> 's process_group \<Rightarrow> 's world \<Rightarrow> error + (addr list \<times> 's world)" where
  "all_gather_object object_list ob pg w =
     (case pickle (heap w) ob of
        None \<Rightarrow> Inl PicklingError
      | Some p \<Rightarrow>
          (let sent = map (\<lambda>i. if i = pg_rank pg then p else pg_peers pg i)
                        [0..<length object_list];
               (gathered, w1) = unpickle_all sent w
           in Inr (gathered, w1\<lparr>collective_calls := collective_calls w1 + 1\<rparr>)))"

subsection \<open>The toolkit's functions\<close>

definition world_size_1_message :: string where
  "world_size_1_message =
     ''World size is 1, and metric(s) not synced. returning the input metric(s).''"

definition validate_rank_and_world_size :: "int \<Rightarrow> 's world \<Rightarrow> error + 's world" where
  "validate_rank_and_world_size world_size w =
     then_do
       (if world_size = 1 then Inr (log_warning world_size_1_message w)
        else if world_size = - 1 then Inl RuntimeError_not_in_group
        else Inr w)
       (\<lambda>w1. if world_size < 1 then Inl (RuntimeError_unexpected_world_size world_size)
             else Inr w1)"

fun prepare_all :: "('s, 'd) metric_ops \<Rightarrow> addr list \<Rightarrow> 's world \<Rightarrow> error + 's world" where
  "prepare_all ops [] w = Inr w"
| "prepare_all ops (m # ms) w =
     then_do (call_prepare_for_merge_state ops m w) (prepare_all ops ms)"

definition sync_metric_object ::
  "('s, 'd) metric_ops \<Rightarrow> addr \<Rightarrow> 's process_group \<Rightarrow> int \<Rightarrow> 's world
     \<Rightarrow> error + (addr list \<times> 's world)" where
  "sync_metric_object ops metric_data pg world_size w =
     then_do
       (case lookup (heap w) metric_data of
          Some (MetricObj s) \<Rightarrow> call_prepare_for_merge_state ops metric_data w
        | Some (DictObj kvs) \<Rightarrow> prepare_all ops (map snd kvs) w
        | None \<Rightarrow> Inl AttributeError)
       (\<lambda>w1. let gathered_data_list = replicate (nat world_size) NoneV
             in all_gather_object gathered_data_list metric_data pg w1)"

definition get_synced_metric ::
  "('s, 'd) metric_ops \<Rightarrow> addr \<Rightarrow> 's process_group \<Rightarrow> 's world \<Rightarrow> error + (val \<times> 's world)" where
  "get_synced_metric ops metric pg w =
     (let world_size = pg_world_size pg in
      then_do (validate_rank_and_world_size world_size w) (\<lambda>w1.
        if world_size = 1 then Inr (Ref metric, w1)
        else
          then_do (sync_metric_object ops metric pg world_size w1) (\<lambda>(gathered_metric_list, w2).
            case gathered_metric_list of
              [] \<Rightarrow> Inl IndexError
            | first # others \<Rightarrow>
                then_do (clone_metric first w2) (\<lambda>(c, w3).
                then_do (get_device ops metric w3) (\<lambda>dev.
                then_do (call_to ops c dev w3) (\<lambda>w4.
                then_do (call_merge_state ops c others w4) (\<lambda>w5.
                Inr (Ref c, w5))))))))"

text \<open>Subscripting and item assignment on a dictionary object.\<close>

definition getitem :: "'s obj list \<Rightarrow> addr \<Rightarrow> string \<Rightarrow> error + addr" where
  "getitem h d k =
     (case lookup h d of
        Some (DictObj kvs) \<Rightarrow> (case map_of kvs k of Some a \<Rightarrow> Inr a | None \<Rightarrow> Inl (KeyError k))
      | _ \<Rightarrow> Inl TypeError)"

fun dict_set :: "(string \<times> addr) list \<Rightarrow> string \<Rightarrow> addr \<Rightarrow> (string \<times> addr) list" where
  "dict_set [] k a = [(k, a)]"
| "dict_set ((k', a') # kvs) k a =
     (if k' = k then (k', a) # kvs else (k', a') # dict_set kvs k a)"

definition setitem :: "addr \<Rightarrow> string \<Rightarrow> addr \<Rightarrow> 's world \<Rightarrow> error + 's world" where
  "setitem d k a w =
     (case lookup (heap w) d of
        Some (DictObj kvs) \<Rightarrow> Inr (store d (DictObj (dict_set kvs k a)) w)
      | _ \<Rightarrow> Inl TypeError)"

definition nth_item :: "'a list \<Rightarrow> nat \<Rightarrow> error + 'a" where
  "nth_item xs i = (if i < length xs then Inr (xs ! i) else Inl IndexError)"

text \<open>
  \<^verbatim>\<open>[list_of_metric_collections[rank][metric_key] for rank in range(1, world_size)]\<close>,
  over the ranks still to visit.
\<close>

fun other_rank_metrics ::
  "'s obj list \<Rightarrow> addr list \<Rightarrow> string \<Rightarrow> nat list \<Rightarrow> error + addr list" where
  "other_rank_metrics h list_of_metric_collections metric_key [] = Inr []"
| "other_rank_metrics h list_of_metric_collections metric_key (rank # ranks) =
     then_do (nth_item list_of_metric_collections rank) (\<lambda>coll.
     then_do (getitem h coll metric_key) (\<lambda>m.
     then_do (other_rank_metrics h list_of_metric_collections metric_key ranks) (\<lambda>ms.
     Inr (m # ms))))"

text \<open>The body of \<^verbatim>\<open>for metric_key in rank_0_dict.keys()\<close>, over the keys still to visit.\<close>

fun merge_keys ::
  "('s, 'd) metric_ops \<Rightarrow> addr \<Rightarrow> addr list \<Rightarrow> int \<Rightarrow> addr \<Rightarrow> string list \<Rightarrow> 's world
     \<Rightarrow> error + 's world" where
  "merge_keys ops rank_0_dict list_of_metric_collections world_size synced_metric_dict [] w =
     Inr w"
| "merge_keys ops rank_0_dict list_of_metric_collections world_size synced_metric_dict
       (metric_key # keys) w =
     then_do (getitem (heap w) rank_0_dict metric_key) (\<lambda>base_metric.
     then_do (other_rank_metrics (heap w) list_of_metric_collections metric_key
                [1..<nat world_size]) (\<lambda>others.
     then_do (clone_metric base_metric w) (\<lambda>(c, w1).
     then_do (get_device ops base_metric w1) (\<lambda>dev.
     then_do (call_to ops c dev w1) (\<lambda>w2.
     then_do (call_merge_state ops c others w2) (\<lambda>w3.
     then_do (setitem synced_metric_dict metric_key c w3) (\<lambda>w4.
     merge_keys ops rank_0_dict list_of_metric_collections world_size synced_metric_dict
       keys w4)))))))"

definition get_synced_metric_collection ::
  "('s, 'd) metric_ops \<Rightarrow> addr \<Rightarrow> 's process_group \<Rightarrow> 's world \<Rightarrow> error + (val \<times> 's world)" where
  "get_synced_metric_collection ops metric_collection pg w =
     (let world_size = pg_world_size pg in
      then_do (validate_rank_and_world_size world_size w) (\<lambda>w1.
        if world_size = 1 then Inr (Ref metric_collection, w1)
        else
          then_do (sync_metric_object ops metric_collection pg world_size w1)
            (\<lambda>(list_of_metric_collections, w2).
              case list_of_metric_collections of
                [] \<Rightarrow> Inl IndexError
              | rank_0_dict # _ \<Rightarrow>
                  (case lookup (heap w2) rank_0_dict of
                     Some (DictObj kvs) \<Rightarrow>
                       (let (synced_metric_dict, w3) = alloc (DictObj []) w2 in
                        then_do (merge_keys ops rank_0_dict list_of_metric_collections
                                   world_size synced_metric_dict (map fst kvs) w3) (\<lambda>w4.
                        Inr (Ref synced_metric_dict, w4)))
                   | _ \<Rightarrow> Inr (NoneV, w2)))))"

subsection \<open>The state a synchronised metric is to have\<close>



section \<open>The synchronisation library: \<^verbatim>\<open>torcheval/metrics/synclib.py\<close>\<close>

text \<open>
  \<^verbatim>\<open>tests/metrics/test_synclib.py\<close> exercises \<^verbatim>\<open>_sync_list_length\<close>,
  \<^verbatim>\<open>_sync_dtype_and_shape\<close> and \<^verbatim>\<open>sync_states\<close> of the module
  \<^verbatim>\<open>torcheval.metrics.synclib\<close>, whose source is not among the files.  The
  definitions of this section follow the specification's description of that module
  (its sections 3, 4.2, 4.3, 6 and 7 and its glossary).

  The view is global: the ranks of the group are \<open>0, \<dots>, N - 1\<close>, the input of a
  function is the list of what every rank holds locally, in rank order, and its
  result is what the calling rank receives.
\<close>

text \<open>
  Modelled from the spec: the element type of a buffer (section 3, "Buffer(dtype,
  shape, raw bytes)"), with the width of one element in bytes.
\<close>

datatype dtype = Float16 | Float32 | Float64 | Int32 | Int64 | UInt8 | Bool8


type_synonym shape = "nat list"

text \<open>
  Modelled from the spec: a numeric buffer, "Buffer(dtype, shape, raw bytes)" of
  section 3.  A rank without data for a path holds \<^verbatim>\<open>None\<close>, here \<open>None\<close> of
  \<open>buffer option\<close>.
\<close>

record buffer =
  buf_dtype :: dtype
  buf_shape :: shape
  buf_data :: "8 word list"

text \<open>Modelled from the spec: the error taxonomy of section 7.\<close>

datatype sync_error =
    InvalidGroup
  | WorldSizeError
  | ShapeReconciliationFailure
  | StructuralMismatch

text \<open>
  Modelled from the spec: the all-gather collective of the glossary, "every
  participant contributes one value and every participant receives the ordered list
  of all contributed values"; a caller that is not a member of the group fails with
  \<open>InvalidGroup\<close> (sections 6 and 7).
\<close>

definition all_gather :: "'a list \<Rightarrow> nat \<Rightarrow> sync_error + 'a list" where
  "all_gather contributions rank =
     (if rank < length contributions then Inr contributions else Inl InvalidGroup)"

text \<open>
  Modelled from the spec: \<^verbatim>\<open>sync_list_length(local_list, group)\<close> of section 4.2,
  "computed via an all-gather of each rank's local length (a single integer)".
\<close>

definition sync_list_length :: "'a list list \<Rightarrow> nat \<Rightarrow> sync_error + nat list" where
  "sync_list_length local_lists rank = all_gather (map length local_lists) rank"

text \<open>
  Modelled from the spec: the small descriptor a rank reports for its buffer in
  section 4.2, "whether it holds a concrete buffer and, if so, its (dtype, shape)",
  "never the buffer payload".
\<close>

definition descriptor :: "buffer option \<Rightarrow> (dtype \<times> shape) option" where
  "descriptor local_buffer = map_option (\<lambda>b. (buf_dtype b, buf_shape b)) local_buffer"

text \<open>
  Modelled from the spec: the choice among the gathered descriptors in section 4.2,
  "the first rank in canonical rank order that reports a concrete buffer is
  authoritative"; none at all is "absent for all".
\<close>

fun first_concrete :: "(dtype \<times> shape) option list \<Rightarrow> (dtype \<times> shape) option" where
  "first_concrete [] = None"
| "first_concrete (None # ds) = first_concrete ds"
| "first_concrete (Some d # ds) = Some d"

text \<open>
  Modelled from the spec: the conflict of section 7, "a Buffer entry's path has
  conflicting dtype across ranks that the first concrete rank wins rule cannot
  silently resolve (e.g., two ranks report concrete but different dtypes for the
  same path)", read off the gathered descriptors.
\<close>

fun dtype_differs :: "(dtype \<times> shape) option \<Rightarrow> (dtype \<times> shape) option \<Rightarrow> bool" where
  "dtype_differs (Some (dt, sh)) (Some (dt', sh')) = (dt \<noteq> dt')"
| "dtype_differs x y = False"

definition dtype_conflict :: "(dtype \<times> shape) option list \<Rightarrow> bool" where
  "dtype_conflict gathered = list_ex (\<lambda>x. list_ex (dtype_differs x) gathered) gathered"

text \<open>
  Modelled from the spec: \<^verbatim>\<open>sync_dtype_and_shape(local_buffer_or_none, group)\<close> of
  section 4.2: an all-gather of the descriptors, then the first concrete one, or
  absent for all.  By section 7 a conflict of dtypes is "surfaced to the caller rather
  than guessed", as \<open>ShapeReconciliationFailure\<close>, "detected locally-per-rank ... from
  the gathered metadata" and raised "on every rank".
\<close>

definition sync_dtype_and_shape ::
  "buffer option list \<Rightarrow> nat \<Rightarrow> sync_error + (dtype \<times> shape) option" where
  "sync_dtype_and_shape local_buffers rank =
     then_do (all_gather (map descriptor local_buffers) rank) (\<lambda>gathered.
     if dtype_conflict gathered then Inl ShapeReconciliationFailure
     else Inr (first_concrete gathered))"








section \<open>Concrete inputs\<close>

text \<open>
  A small metric for running the toolkit: its state is a list of numbers,
  \<^verbatim>\<open>_prepare_for_merge_state\<close> folds the list into one entry (metrics that keep a
  list of tensors concatenate it into one tensor there), \<^verbatim>\<open>to\<close> leaves the
  numbers alone and \<^verbatim>\<open>merge_state\<close> appends the states of the other metrics.
\<close>

definition example_ops :: "(nat list, string) metric_ops" where
  "example_ops = \<lparr>op_prepare_for_merge_state = (\<lambda>xs. [sum_list xs]),
                   op_device = (\<lambda>xs. ''cpu''),
                   op_to = (\<lambda>xs dev. xs),
                   op_merge_state = (\<lambda>xs others. xs @ concat others)\<rparr>"

definition empty_world :: "nat list world" where
  "empty_world = \<lparr>heap = [], log_records = [], collective_calls = 0\<rparr>"

definition one_metric_world :: "nat list world" where
  "one_metric_world = \<lparr>heap = [MetricObj [1, 2]], log_records = [], collective_calls = 0\<rparr>"

definition collection_world :: "nat list world" where
  "collection_world = \<lparr>heap = [MetricObj [1, 2], DictObj [(''max'', 0)]],
                        log_records = [], collective_calls = 0\<rparr>"

definition group_of_1 :: "nat list process_group" where
  "group_of_1 = \<lparr>pg_world_size = 1, pg_rank = 0, pg_peers = (\<lambda>i. PMetric [])\<rparr>"


definition rank_1_of_2 :: "nat list process_group" where
  "rank_1_of_2 = \<lparr>pg_world_size = 2, pg_rank = 1, pg_peers = (\<lambda>i. PMetric [5])\<rparr>"

definition rank_0_of_2_collections :: "nat list process_group" where
  "rank_0_of_2_collections =
     \<lparr>pg_world_size = 2, pg_rank = 0, pg_peers = (\<lambda>i. PDict [(''max'', [7])])\<rparr>"

text \<open>The value a call returns, when it returns.\<close>

definition returned :: "error + (val \<times> 's world) \<Rightarrow> val option" where
  "returned r = (case r of Inl e \<Rightarrow> None | Inr (v, w) \<Rightarrow> Some v)"


definition collection_world_gathered :: "nat list world" where
  "collection_world_gathered =
     \<lparr>heap = [MetricObj [3], DictObj [(''max'', 0)], MetricObj [5], MetricObj [3],
              DictObj [(''max'', 3)]],
      log_records = [], collective_calls = 1\<rparr>"

text \<open>
  The inputs of \<^verbatim>\<open>tests/metrics/test_synclib.py\<close>: \<^verbatim>\<open>torch.tensor(1)\<close>, a
  \<^verbatim>\<open>float64\<close> scalar given by its eight bytes, a \<open>2 \<times> 3\<close> \<^verbatim>\<open>float32\<close> tensor filled
  with one byte, a \<^verbatim>\<open>float32\<close> vector of four zeros, and the per-rank lists of \<^verbatim>\<open>_test_sync_list_length\<close>,
  \<^verbatim>\<open>_test_sync_dtype_and_shape\<close>, \<^verbatim>\<open>_test_complex_mixed_state\<close> and
  \<^verbatim>\<open>_test_empty_tensor_list_sync_state\<close>.
\<close>

definition tensor_1 :: buffer where
  "tensor_1 = \<lparr>buf_dtype = Int64, buf_shape = [], buf_data = [1, 0, 0, 0, 0, 0, 0, 0]\<rparr>"

definition float64_scalar :: "8 word list \<Rightarrow> buffer" where
  "float64_scalar bytes = \<lparr>buf_dtype = Float64, buf_shape = [], buf_data = bytes\<rparr>"

definition tensor_2_3 :: "8 word \<Rightarrow> buffer" where
  "tensor_2_3 x = \<lparr>buf_dtype = Float32, buf_shape = [2, 3], buf_data = replicate 24 x\<rparr>"

definition tensor_4 :: buffer where
  "tensor_4 = \<lparr>buf_dtype = Float32, buf_shape = [4], buf_data = replicate 16 0\<rparr>"

definition length_test_lists :: "buffer list list" where
  "length_test_lists = [replicate 1 tensor_1, [], replicate 4 tensor_1, replicate 3 tensor_1]"

definition dtype_test_buffers :: "buffer option list" where
  "dtype_test_buffers =
     [Some (float64_scalar [0, 0, 0, 0, 0, 0, 8, 64]),
      Some (float64_scalar [0, 0, 0, 0, 0, 0, 240, 63]),
      None]"



text \<open>
  Further per-rank buffers: two concrete ranks of different dtype; a first and a
  last concrete rank of one dtype and different shapes; three ranks without data; and lists whose elements at
  index 1 differ in dtype.
\<close>

definition dtype_conflict_buffers :: "buffer option list" where
  "dtype_conflict_buffers =
     [Some (float64_scalar [0, 0, 0, 0, 0, 0, 8, 64]), Some (tensor_2_3 1), None]"

definition int_and_float_buffers :: "buffer option list" where
  "int_and_float_buffers = [Some tensor_1, None, Some (tensor_2_3 1)]"

definition shape_differs_buffers :: "buffer option list" where
  "shape_differs_buffers = [None, Some (tensor_2_3 1), Some tensor_4]"

definition absent_buffers :: "buffer option list" where
  "absent_buffers = [None, None, None]"


section \<open>Properties of the toolkit\<close>

subsection \<open>Auxiliary facts\<close>

lemma then_do_Inr_iff:
  "then_do r f = Inr y \<longleftrightarrow> (\<exists>x. r = Inr x \<and> f x = Inr y)"
  by (cases r) (simp_all add: then_do_def)

lemma validate_gt_1: "1 < n \<Longrightarrow> validate_rank_and_world_size n w = Inr w"
  by (simp add: validate_rank_and_world_size_def then_do_def)

text \<open>Deserialising only appends to the heap, and hands out addresses that are new.\<close>

lemma unpickle_items_frame:
  "unpickle_items items w = (kvs, w') \<Longrightarrow>
     heap w' = heap w @ map (\<lambda>(k, s). MetricObj s) items
     \<and> log_records w' = log_records w \<and> collective_calls w' = collective_calls w"
proof (induction items arbitrary: w kvs w')
  case Nil
  then show ?case by simp
next
  case (Cons x items)
  obtain k s where x: "x = (k, s)" by (cases x)
  obtain a w1 where a: "alloc (MetricObj s) w = (a, w1)" by (cases "alloc (MetricObj s) w")
  obtain kvs2 w2 where r: "unpickle_items items w1 = (kvs2, w2)"
    by (cases "unpickle_items items w1")
  from Cons.prems x a r have eq: "w' = w2" by simp
  from a have a': "heap w1 = heap w @ [MetricObj s]"
     "log_records w1 = log_records w" "collective_calls w1 = collective_calls w"
    by (auto simp: alloc_def)
  from Cons.IH[OF r] eq a' x show ?case by simp
qed

lemma unpickle_frame:
  assumes "unpickle p w = (a, w')"
  shows "(\<exists>ext. heap w' = heap w @ ext) \<and> length (heap w) \<le> a \<and> a < length (heap w')
     \<and> log_records w' = log_records w \<and> collective_calls w' = collective_calls w"
proof (cases p)
  case (PMetric s)
  with assms show ?thesis by (auto simp: unpickle_def alloc_def)
next
  case (PDict items)
  obtain kvs w1 where r: "unpickle_items items w = (kvs, w1)"
    by (cases "unpickle_items items w")
  from unpickle_items_frame[OF r] assms PDict r show ?thesis
    by (auto simp: unpickle_def alloc_def)
qed

lemma unpickle_all_frame:
  "unpickle_all ps w = (as, w') \<Longrightarrow>
     length as = length ps \<and> (\<exists>ext. heap w' = heap w @ ext)
     \<and> (\<forall>a\<in>set as. length (heap w) \<le> a \<and> a < length (heap w'))
     \<and> log_records w' = log_records w \<and> collective_calls w' = collective_calls w"
proof (induction ps arbitrary: w as w')
  case Nil
  then show ?case by simp
next
  case (Cons p ps)
  obtain a w1 where a: "unpickle p w = (a, w1)" by (cases "unpickle p w")
  obtain as2 w2 where r: "unpickle_all ps w1 = (as2, w2)" by (cases "unpickle_all ps w1")
  from Cons.prems a r have eq: "as = a # as2" "w' = w2" by simp_all
  from unpickle_frame[OF a] Cons.IH[OF r] eq show ?case by auto
qed






lemma all_gather_object_frame:
  assumes "all_gather_object object_list ob pg w = Inr (gathered, w')"
  shows "length gathered = length object_list \<and> (\<exists>ext. heap w' = heap w @ ext)
     \<and> (\<forall>a\<in>set gathered. length (heap w) \<le> a \<and> a < length (heap w'))
     \<and> log_records w' = log_records w \<and> collective_calls w' = Suc (collective_calls w)"
proof -
  from assms obtain p where p: "pickle (heap w) ob = Some p"
    by (cases "pickle (heap w) ob") (auto simp: all_gather_object_def)
  let ?sent = "map (\<lambda>i. if i = pg_rank pg then p else pg_peers pg i) [0..<length object_list]"
  obtain as w1 where u: "unpickle_all ?sent w = (as, w1)" by (cases "unpickle_all ?sent w")
  from assms p u have "gathered = as" "w' = w1\<lparr>collective_calls := collective_calls w1 + 1\<rparr>"
    by (simp_all add: all_gather_object_def)
  with unpickle_all_frame[OF u] show ?thesis by simp
qed

lemma sync_metric_object_length:
  assumes "sync_metric_object ops md pg n w = Inr (gathered, w2)"
  shows "length gathered = nat n"
proof -
  from assms obtain w1 where
    "all_gather_object (replicate (nat n) NoneV) md pg w1 = Inr (gathered, w2)"
    by (auto simp: sync_metric_object_def then_do_Inr_iff)
  from all_gather_object_frame[OF this] show ?thesis by simp
qed

subsection \<open>Validation of the world size\<close>

text \<open>
  C7.  \<^verbatim>\<open>_validate_rank_and_world_size\<close> raises exactly when the reported world size
  is less than 1; for world size \<open>-1\<close> the error is the distinct "not part of the
  process group" one, for any other world size below 1 it is the "unexpected world
  size" one; for world size 1 it appends one warning record to the log and does not
  raise; for a larger world size it does nothing.
\<close>

theorem validate_rank_and_world_size_raises_iff:
  "(isl (validate_rank_and_world_size n w) \<longleftrightarrow> n < 1)
   \<and> (n = - 1 \<longrightarrow> validate_rank_and_world_size n w = Inl RuntimeError_not_in_group)
   \<and> (n < 1 \<and> n \<noteq> - 1 \<longrightarrow>
        validate_rank_and_world_size n w = Inl (RuntimeError_unexpected_world_size n))
   \<and> (n = 1 \<longrightarrow>
        validate_rank_and_world_size n w =
          Inr (w\<lparr>log_records := log_records w @ [(WARNING, world_size_1_message)]\<rparr>))
   \<and> (1 < n \<longrightarrow> validate_rank_and_world_size n w = Inr w)"
  by (simp add: validate_rank_and_world_size_def then_do_def log_warning_def)

theorem validate_rank_and_world_size_witness:
  "validate_rank_and_world_size (- 1) empty_world = Inl RuntimeError_not_in_group
   \<and> validate_rank_and_world_size 0 empty_world = Inl (RuntimeError_unexpected_world_size 0)
   \<and> validate_rank_and_world_size (- 7) empty_world =
        Inl (RuntimeError_unexpected_world_size (- 7))
   \<and> validate_rank_and_world_size 1 empty_world =
        Inr (empty_world\<lparr>log_records := [(WARNING, world_size_1_message)]\<rparr>)
   \<and> validate_rank_and_world_size 3 empty_world = Inr empty_world"
  using validate_rank_and_world_size_raises_iff [of "- 1" empty_world]
        validate_rank_and_world_size_raises_iff [of 0 empty_world]
        validate_rank_and_world_size_raises_iff [of "- 7" empty_world]
        validate_rank_and_world_size_raises_iff [of 1 empty_world]
        validate_rank_and_world_size_raises_iff [of 3 empty_world]
  by (simp add: empty_world_def)

subsection \<open>World size 1\<close>

text \<open>
  C6, as the code has it.  When the process group's world size is exactly 1,
  \<^verbatim>\<open>get_synced_metric\<close> and \<^verbatim>\<open>get_synced_metric_collection\<close> return the caller's
  own object: the very reference that was passed in, not a list holding it.  The
  heap is left as it was and no collective call is issued; the only effect is one
  warning record in the log.
\<close>

theorem world_size_1_returns_input:
  assumes "pg_world_size pg = 1"
  shows "get_synced_metric ops m pg w = Inr (Ref m, log_warning world_size_1_message w)
     \<and> get_synced_metric_collection ops m pg w =
         Inr (Ref m, log_warning world_size_1_message w)
     \<and> heap (log_warning world_size_1_message w) = heap w
     \<and> collective_calls (log_warning world_size_1_message w) = collective_calls w"
  using assms
  by (simp add: get_synced_metric_def get_synced_metric_collection_def
      validate_rank_and_world_size_def then_do_def log_warning_def)

theorem world_size_1_returns_input_witness:
  "pg_world_size group_of_1 = 1
   \<and> get_synced_metric example_ops 0 group_of_1 one_metric_world =
       Inr (Ref 0, one_metric_world\<lparr>log_records := [(WARNING, world_size_1_message)]\<rparr>)
   \<and> get_synced_metric_collection example_ops 1 group_of_1 collection_world =
       Inr (Ref 1, collection_world\<lparr>log_records := [(WARNING, world_size_1_message)]\<rparr>)"
proof -
  have one: "pg_world_size group_of_1 = 1" by (simp add: group_of_1_def)
  show ?thesis
    using one world_size_1_returns_input [OF one, of example_ops 0 one_metric_world]
      world_size_1_returns_input [OF one, of example_ops 1 collection_world]
    by (simp add: log_warning_def one_metric_world_def collection_world_def)
qed

text \<open>
  The claim as stated has the result wrapped as a bundle of length 1.  On the
  metric at address 0, with world size 1, the call returns the reference itself,
  which is not the one-element list.
\<close>

theorem world_size_1_not_a_bundle:
  "returned (get_synced_metric example_ops 0 group_of_1 one_metric_world) = Some (Ref 0)
   \<and> returned (get_synced_metric example_ops 0 group_of_1 one_metric_world)
       \<noteq> Some (ListV [Ref 0])
   \<and> returned (get_synced_metric_collection example_ops 1 group_of_1 collection_world)
       = Some (Ref 1)
   \<and> returned (get_synced_metric_collection example_ops 1 group_of_1 collection_world)
       \<noteq> Some (ListV [Ref 1])"
  by (simp add: returned_def get_synced_metric_def get_synced_metric_collection_def
      validate_rank_and_world_size_def then_do_def group_of_1_def)

subsection \<open>The collection path when rank 0 did not send a mapping\<close>

text \<open>
  C10.  With world size greater than 1, once \<^verbatim>\<open>_sync_metric_object\<close> has gathered
  the objects: if the object gathered from rank 0 is not a mapping,
  \<^verbatim>\<open>get_synced_metric_collection\<close> returns \<^verbatim>\<open>None\<close> without raising (and leaves the
  world as the gather left it); and whenever the call returns something other than
  \<^verbatim>\<open>None\<close>, the object gathered from rank 0 is a mapping.
\<close>

theorem get_synced_metric_collection_None_unless_mapping:
  assumes ws: "1 < pg_world_size pg"
      and sync: "sync_metric_object ops mc pg (pg_world_size pg) w = Inr (gathered, w2)"
  shows "((\<forall>kvs. lookup (heap w2) (gathered ! 0) \<noteq> Some (DictObj kvs)) \<longrightarrow>
            get_synced_metric_collection ops mc pg w = Inr (NoneV, w2))
     \<and> (\<forall>v w'. get_synced_metric_collection ops mc pg w = Inr (v, w') \<and> v \<noteq> NoneV \<longrightarrow>
            (\<exists>kvs. lookup (heap w2) (gathered ! 0) = Some (DictObj kvs)))"
proof -
  from sync_metric_object_length[OF sync] ws obtain r0 rest where g: "gathered = r0 # rest"
    by (cases gathered) auto
  have v: "validate_rank_and_world_size (pg_world_size pg) w = Inr w"
    using ws by (rule validate_gt_1)
  show ?thesis
  proof (cases "lookup (heap w2) r0")
    case None
    with ws v sync g show ?thesis
      by (simp add: get_synced_metric_collection_def then_do_def)
  next
    case (Some ob)
    then show ?thesis
    proof (cases ob)
      case (MetricObj s)
      with Some ws v sync g show ?thesis
        by (simp add: get_synced_metric_collection_def then_do_def)
    next
      case (DictObj kvs)
      with Some ws v sync g show ?thesis by simp
    qed
  qed
qed

theorem get_synced_metric_collection_None_witness:
  "1 < pg_world_size rank_1_of_2
   \<and> sync_metric_object example_ops 1 rank_1_of_2 (pg_world_size rank_1_of_2) collection_world =
       Inr ([2, 4], collection_world_gathered)
   \<and> lookup (heap collection_world_gathered) ([2, 4] ! 0) = Some (MetricObj [5])
   \<and> get_synced_metric_collection example_ops 1 rank_1_of_2 collection_world =
       Inr (NoneV, collection_world_gathered)"
proof -
  have ws: "1 < pg_world_size rank_1_of_2" by (simp add: rank_1_of_2_def)
  have sync: "sync_metric_object example_ops 1 rank_1_of_2 (pg_world_size rank_1_of_2)
      collection_world = Inr ([2, 4], collection_world_gathered)"
    by code_simp
  have rank_0: "lookup (heap collection_world_gathered) ([2, 4] ! 0) = Some (MetricObj [5])"
    by (simp add: lookup_def collection_world_gathered_def)
  then have "\<forall>kvs. lookup (heap collection_world_gathered) ([2, 4] ! 0) \<noteq> Some (DictObj kvs)"
    by simp
  with get_synced_metric_collection_None_unless_mapping [OF ws sync]
  have "get_synced_metric_collection example_ops 1 rank_1_of_2 collection_world =
      Inr (NoneV, collection_world_gathered)"
    by blast
  with ws sync rank_0 show ?thesis by simp
qed

text \<open>
  The other branch on a concrete input: rank 0 of two, both ranks passing the
  collection \<open>{max: m}\<close>.  The merged dictionary is a new object (address 6) whose
  metric (address 7) is the copy of rank 0's, merged with rank 1's.
\<close>

lemma get_synced_metric_collection_merges:
  "get_synced_metric_collection example_ops 1 rank_0_of_2_collections collection_world =
     Inr (Ref 6,
          \<lparr>heap = [MetricObj [3], DictObj [(''max'', 0)], MetricObj [3],
                   DictObj [(''max'', 2)], MetricObj [7], DictObj [(''max'', 4)],
                   DictObj [(''max'', 7)], MetricObj [3, 7]],
           log_records = [], collective_calls = 1\<rparr>)"
  by code_simp

subsection \<open>Ownership of the synchronised metric\<close>











section \<open>Properties of the synchronisation library\<close>

subsection \<open>List lengths\<close>

text \<open>
  C3.  Whatever the local list lengths of the ranks are (\<open>ns\<close>, one natural number
  per rank, 0 allowed), \<^verbatim>\<open>_sync_list_length\<close> returns on every rank of the group
  exactly the sequence \<open>ns\<close>, ordered by rank.
\<close>

theorem sync_list_length_ordered_lengths:
  assumes "map length local_lists = ns" and "rank < length ns"
  shows "sync_list_length local_lists rank = Inr ns"
  using assms by (auto simp: sync_list_length_def all_gather_def)

theorem sync_list_length_witness:
  "map length length_test_lists = [1, 0, 4, 3]
   \<and> sync_list_length length_test_lists 0 = Inr [1, 0, 4, 3]
   \<and> sync_list_length length_test_lists 1 = Inr [1, 0, 4, 3]
   \<and> sync_list_length length_test_lists 2 = Inr [1, 0, 4, 3]
   \<and> sync_list_length length_test_lists 3 = Inr [1, 0, 4, 3]"
proof -
  have ls: "map length length_test_lists = [1, 0, 4, 3]"
    by (simp add: length_test_lists_def)
  show ?thesis
    using ls sync_list_length_ordered_lengths [OF ls, of 0]
      sync_list_length_ordered_lengths [OF ls, of 1]
      sync_list_length_ordered_lengths [OF ls, of 2]
      sync_list_length_ordered_lengths [OF ls, of 3]
    by simp
qed

subsection \<open>Buffer metadata\<close>

lemma first_concrete_None:
  "(\<forall>i<length ds. ds ! i = None) \<Longrightarrow> first_concrete ds = None"
proof (induction ds rule: first_concrete.induct)
  case 1
  then show ?case by simp
next
  case (2 ds)
  then have "\<forall>i<length ds. ds ! i = None" by fastforce
  with 2 show ?case by simp
next
  case (3 d ds)
  then show ?case by fastforce
qed

lemma first_concrete_first:
  "i < length ds \<Longrightarrow> ds ! i = Some d \<Longrightarrow> (\<forall>j<i. ds ! j = None) \<Longrightarrow> first_concrete ds = Some d"
proof (induction ds arbitrary: i rule: first_concrete.induct)
  case 1
  then show ?case by simp
next
  case (2 ds)
  then obtain i' where i: "i = Suc i'" by (cases i) auto
  with 2 have "i' < length ds" "ds ! i' = Some d" "\<forall>j<i'. ds ! j = None" by auto
  with 2 show ?case by simp
next
  case (3 d' ds)
  then have "i = 0" by (cases i) auto
  with 3 show ?case by simp
qed



lemma dtype_differs_iff:
  "dtype_differs x y \<longleftrightarrow> (\<exists>d d'. x = Some d \<and> y = Some d' \<and> fst d \<noteq> fst d')"
  by (cases "(x, y)" rule: dtype_differs.cases) auto

lemma dtype_conflict_iff:
  "dtype_conflict ds \<longleftrightarrow>
     (\<exists>i<length ds. \<exists>j<length ds. \<exists>d d'. ds ! i = Some d \<and> ds ! j = Some d' \<and> fst d \<noteq> fst d')"
proof
  assume "dtype_conflict ds"
  then obtain x y d d' where "x \<in> set ds" "y \<in> set ds" "x = Some d" "y = Some d'" "fst d \<noteq> fst d'"
    unfolding dtype_conflict_def list_ex_iff dtype_differs_iff by blast
  then show "\<exists>i<length ds. \<exists>j<length ds. \<exists>d d'. ds ! i = Some d \<and> ds ! j = Some d' \<and> fst d \<noteq> fst d'"
    by (metis in_set_conv_nth)
next
  assume "\<exists>i<length ds. \<exists>j<length ds. \<exists>d d'. ds ! i = Some d \<and> ds ! j = Some d' \<and> fst d \<noteq> fst d'"
  then obtain i j d d' where "i < length ds" "j < length ds" "ds ! i = Some d" "ds ! j = Some d'"
    "fst d \<noteq> fst d'" by blast
  then have "Some d \<in> set ds" "Some d' \<in> set ds" "dtype_differs (Some d) (Some d')"
    by (auto simp: dtype_differs_iff dest: nth_mem)
  then show "dtype_conflict ds"
    unfolding dtype_conflict_def list_ex_iff by blast
qed

lemma descriptor_Some_iff:
  "descriptor l = Some d \<longleftrightarrow> (\<exists>b. l = Some b \<and> d = (buf_dtype b, buf_shape b))"
  by (cases l) (auto simp: descriptor_def)

lemma dtype_conflict_descriptors:
  "dtype_conflict (map descriptor bs) \<longleftrightarrow>
     (\<exists>i<length bs. \<exists>j<length bs. \<exists>b b'. bs ! i = Some b \<and> bs ! j = Some b'
        \<and> buf_dtype b \<noteq> buf_dtype b')"
proof
  assume "dtype_conflict (map descriptor bs)"
  then obtain i j d d' where "i < length bs" "j < length bs"
    "descriptor (bs ! i) = Some d" "descriptor (bs ! j) = Some d'" "fst d \<noteq> fst d'"
    unfolding dtype_conflict_iff by auto
  then show "\<exists>i<length bs. \<exists>j<length bs. \<exists>b b'. bs ! i = Some b \<and> bs ! j = Some b'
        \<and> buf_dtype b \<noteq> buf_dtype b'"
    unfolding descriptor_Some_iff by fastforce
next
  assume "\<exists>i<length bs. \<exists>j<length bs. \<exists>b b'. bs ! i = Some b \<and> bs ! j = Some b'
        \<and> buf_dtype b \<noteq> buf_dtype b'"
  then obtain i j b b' where ij: "i < length bs" "j < length bs" "bs ! i = Some b" "bs ! j = Some b'"
    "buf_dtype b \<noteq> buf_dtype b'" by blast
  then have "map descriptor bs ! i = Some (buf_dtype b, buf_shape b)"
    "map descriptor bs ! j = Some (buf_dtype b', buf_shape b')"
    by (simp_all add: descriptor_def)
  with ij show "dtype_conflict (map descriptor bs)"
    unfolding dtype_conflict_iff by (intro exI[of _ i] exI[of _ j] conjI) auto
qed

text \<open>
  C2, as the model has it.  Whatever each rank holds at a Buffer path, a concrete
  buffer or \<^verbatim>\<open>None\<close>, as long as the ranks that hold a concrete buffer agree on
  its dtype: on every rank of the group \<^verbatim>\<open>_sync_dtype_and_shape\<close> returns the dtype
  and shape of the buffer of the first rank, in ascending rank order, that holds a
  concrete one (also when a later rank holds one of another shape); and it returns
  \<^verbatim>\<open>None\<close> (absent for all) when no rank holds one.
\<close>

theorem sync_dtype_and_shape_first_concrete:
  assumes rank: "rank < length local_buffers"
      and agree: "\<forall>i<length local_buffers. \<forall>j<length local_buffers. \<forall>b b'.
                    local_buffers ! i = Some b \<and> local_buffers ! j = Some b' \<longrightarrow>
                    buf_dtype b = buf_dtype b'"
  shows "((\<forall>i<length local_buffers. local_buffers ! i = None) \<longrightarrow>
            sync_dtype_and_shape local_buffers rank = Inr None)
     \<and> (\<forall>i b. i < length local_buffers \<and> local_buffers ! i = Some b
              \<and> (\<forall>j<i. local_buffers ! j = None) \<longrightarrow>
            sync_dtype_and_shape local_buffers rank = Inr (Some (buf_dtype b, buf_shape b)))"
proof -
  have "\<not> dtype_conflict (map descriptor local_buffers)"
    unfolding dtype_conflict_descriptors using agree by blast
  with rank have run: "sync_dtype_and_shape local_buffers rank =
      Inr (first_concrete (map descriptor local_buffers))"
    by (simp add: sync_dtype_and_shape_def all_gather_def then_do_def)
  have none: "first_concrete (map descriptor local_buffers) = None"
    if "\<forall>i<length local_buffers. local_buffers ! i = None"
    using that by (intro first_concrete_None) (simp add: descriptor_def)
  have first: "first_concrete (map descriptor local_buffers) = Some (buf_dtype b, buf_shape b)"
    if "i < length local_buffers" "local_buffers ! i = Some b" "\<forall>j<i. local_buffers ! j = None"
    for i b
    using that by (intro first_concrete_first[of i]) (simp_all add: descriptor_def)
  from run none first show ?thesis by auto
qed

lemma agree_3:
  assumes "\<And>b. xs ! 0 = Some b \<Longrightarrow> buf_dtype b = dt"
      and "\<And>b. xs ! 1 = Some b \<Longrightarrow> buf_dtype b = dt"
      and "\<And>b. xs ! 2 = Some b \<Longrightarrow> buf_dtype b = dt"
      and "length xs = 3"
  shows "\<forall>i<length xs. \<forall>j<length xs. \<forall>b b'.
           xs ! i = Some b \<and> xs ! j = Some b' \<longrightarrow> buf_dtype b = buf_dtype b'"
proof -
  have "buf_dtype b = dt" if "i < 3" "xs ! i = Some b" for i b
  proof -
    from that(1) consider "i = 0" | "i = 1" | "i = 2" by linarith
    then show ?thesis using assms that(2) by cases auto
  qed
  with assms(4) show ?thesis by auto
qed

theorem sync_dtype_and_shape_witness:
  "sync_dtype_and_shape dtype_test_buffers 0 = Inr (Some (Float64, []))
   \<and> sync_dtype_and_shape dtype_test_buffers 1 = Inr (Some (Float64, []))
   \<and> sync_dtype_and_shape dtype_test_buffers 2 = Inr (Some (Float64, []))
   \<and> sync_dtype_and_shape shape_differs_buffers 0 = Inr (Some (Float32, [2, 3]))
   \<and> sync_dtype_and_shape shape_differs_buffers 2 = Inr (Some (Float32, [2, 3]))
   \<and> sync_dtype_and_shape absent_buffers 0 = Inr None
   \<and> sync_dtype_and_shape absent_buffers 2 = Inr None"
proof -
  let ?b = "float64_scalar [0, 0, 0, 0, 0, 0, 8, 64]"
  have ag1: "\<forall>i<length dtype_test_buffers. \<forall>j<length dtype_test_buffers. \<forall>b b'.
      dtype_test_buffers ! i = Some b \<and> dtype_test_buffers ! j = Some b' \<longrightarrow>
      buf_dtype b = buf_dtype b'"
    by (rule agree_3[where dt = Float64])
      (auto simp: dtype_test_buffers_def float64_scalar_def)
  have ag2: "\<forall>i<length shape_differs_buffers. \<forall>j<length shape_differs_buffers. \<forall>b b'.
      shape_differs_buffers ! i = Some b \<and> shape_differs_buffers ! j = Some b' \<longrightarrow>
      buf_dtype b = buf_dtype b'"
    by (rule agree_3[where dt = Float32])
      (auto simp: shape_differs_buffers_def tensor_2_3_def tensor_4_def)
  have ag3: "\<forall>i<length absent_buffers. \<forall>j<length absent_buffers. \<forall>b b'.
      absent_buffers ! i = Some b \<and> absent_buffers ! j = Some b' \<longrightarrow>
      buf_dtype b = buf_dtype b'"
    by (rule agree_3[where dt = Float32]) (auto simp: absent_buffers_def)
  have a: "sync_dtype_and_shape dtype_test_buffers r = Inr (Some (Float64, []))" if "r < 3" for r
  proof -
    from that have r: "r < length dtype_test_buffers" by (simp add: dtype_test_buffers_def)
    from sync_dtype_and_shape_first_concrete
      [OF r ag1, THEN conjunct2, rule_format, of 0 ?b]
    show ?thesis by (simp add: dtype_test_buffers_def float64_scalar_def)
  qed
  have b: "sync_dtype_and_shape shape_differs_buffers r = Inr (Some (Float32, [2, 3]))"
    if "r < 3" for r
  proof -
    from that have r: "r < length shape_differs_buffers" by (simp add: shape_differs_buffers_def)
    from sync_dtype_and_shape_first_concrete
      [OF r ag2, THEN conjunct2, rule_format, of 1 "tensor_2_3 1"]
    show ?thesis by (simp add: shape_differs_buffers_def tensor_2_3_def)
  qed
  have c: "sync_dtype_and_shape absent_buffers r = Inr None" if "r < 3" for r
  proof -
    from that have r: "r < length absent_buffers" by (simp add: absent_buffers_def)
    from sync_dtype_and_shape_first_concrete [OF r ag3, THEN conjunct1]
    show ?thesis by (simp add: absent_buffers_def nth_Cons')
  qed
  from a [of 0] a [of 1] a [of 2] b [of 0] b [of 2] c [of 0] c [of 2] show ?thesis by simp
qed

text \<open>
  The claim as stated covers every assignment.  With a \<^verbatim>\<open>float64\<close> scalar on rank
  0 and a \<^verbatim>\<open>float32\<close> tensor on rank 1 the reconciliation does not return rank 0's
  dtype and shape: it raises.
\<close>

theorem sync_dtype_and_shape_conflict_not_first:
  "sync_dtype_and_shape dtype_conflict_buffers 0 = Inl ShapeReconciliationFailure
   \<and> sync_dtype_and_shape dtype_conflict_buffers 0 \<noteq> Inr (Some (Float64, []))
   \<and> dtype_conflict_buffers ! 0 = Some (float64_scalar [0, 0, 0, 0, 0, 0, 8, 64])
   \<and> descriptor (dtype_conflict_buffers ! 0) = Some (Float64, [])"
  by code_simp

text \<open>
  C8.  Whenever two ranks hold concrete buffers of different dtypes at a Buffer
  path, the metadata reconciliation raises \<open>ShapeReconciliationFailure\<close> on every
  rank of the group; no rank's dtype is adopted.
\<close>

theorem sync_dtype_and_shape_conflict_raises:
  assumes "rank < length local_buffers"
      and "i < length local_buffers" and "j < length local_buffers"
      and "local_buffers ! i = Some b" and "local_buffers ! j = Some b'"
      and "buf_dtype b \<noteq> buf_dtype b'"
  shows "sync_dtype_and_shape local_buffers rank = Inl ShapeReconciliationFailure"
proof -
  have "dtype_conflict (map descriptor local_buffers)"
    unfolding dtype_conflict_descriptors using assms by blast
  with assms(1) show ?thesis
    by (simp add: sync_dtype_and_shape_def all_gather_def then_do_def)
qed

theorem sync_dtype_and_shape_conflict_witness:
  "int_and_float_buffers ! 0 = Some tensor_1
   \<and> int_and_float_buffers ! 2 = Some (tensor_2_3 1)
   \<and> buf_dtype tensor_1 \<noteq> buf_dtype (tensor_2_3 1)
   \<and> sync_dtype_and_shape int_and_float_buffers 0 = Inl ShapeReconciliationFailure
   \<and> sync_dtype_and_shape int_and_float_buffers 1 = Inl ShapeReconciliationFailure
   \<and> sync_dtype_and_shape int_and_float_buffers 2 = Inl ShapeReconciliationFailure"
proof -
  have h: "int_and_float_buffers ! 0 = Some tensor_1"
    "int_and_float_buffers ! 2 = Some (tensor_2_3 1)"
    "buf_dtype tensor_1 \<noteq> buf_dtype (tensor_2_3 1)"
    "0 < length int_and_float_buffers" "1 < length int_and_float_buffers"
    "2 < length int_and_float_buffers"
    by (simp_all add: int_and_float_buffers_def tensor_1_def tensor_2_3_def)
  from sync_dtype_and_shape_conflict_raises [OF h(4) h(4) h(6) h(1) h(2) h(3)]
    sync_dtype_and_shape_conflict_raises [OF h(5) h(4) h(6) h(1) h(2) h(3)]
    sync_dtype_and_shape_conflict_raises [OF h(6) h(4) h(6) h(1) h(2) h(3)] h
  show ?thesis by simp
qed

subsection \<open>Lists of buffers\<close>


















end
